theory Spec2Isabelle
  imports Complex_Main "HOL-Library.Log_Nat"
begin

section \<open>The raster surface\<close>

text \<open>
  The component draws on a 2D canvas context. Every call the source makes on
  \<open>ctx\<close> (and the assignments to its ambient fields) is one command; a paint is the
  list of commands in the order the source issues them. JavaScript numbers are
  modelled as real numbers, colours and style tags as strings. Operations on them are
  exact, with two exceptions where the last bit of a double shows as a whole pixel:
  the cell size that \<open>update\<close> computes, and the products from which the default
  style takes the width and height of its rectangles, are the doubles nearest to the
  exact results (see \<open>fl\<close> below).
\<close>

datatype command =
    SetCanvasSize real real
  | Scale real real
  | SetLineWidth real
  | SetFillStyle string
  | SetStrokeStyle string
  | SetGlobalAlpha real
  | FillRect real real real real
  | BeginPath
  | MoveTo real real
  | LineTo real real
  | QuadraticCurveTo real real real real
  | BezierCurveTo real real real real real real
  | Arc real real real real real bool
  | Ellipse real real real real real real real
  | ClosePath
  | Stroke
  | Fill
  | Save
  | Restore
  | DrawImage string real real real real
  | LogoOnLoad

text \<open>\<open>Math.round\<close> rounds half up; \<open>Math.floor\<close> and \<open>Math.ceil\<close> return numbers.\<close>

definition Math_round :: "real \<Rightarrow> real" where
  "Math_round v = of_int \<lfloor>v + 1 / 2\<rfloor>"

definition Math_floor :: "real \<Rightarrow> real" where
  "Math_floor v = of_int \<lfloor>v\<rfloor>"

definition Math_ceil :: "real \<Rightarrow> real" where
  "Math_ceil v = of_int \<lceil>v\<rceil>"

section \<open>Doubles\<close>

text \<open>
  A JavaScript number is an IEEE 754 double: a multiple \<open>m * 2^(e - 52)\<close> of a power
  of two with \<open>2^52 \<le> |m| < 2^53\<close>, or 0. An arithmetic operation returns the double
  nearest to the exact result, the one with the even \<open>m\<close> when two are equally near.
  \<open>binade v\<close> is the \<open>e\<close> with \<open>2^e \<le> |v| < 2^(e + 1)\<close>, and \<open>fl v\<close> the double
  nearest to \<open>v\<close>. The exponent is not bounded here: overflow to an infinity and the
  subnormal numbers, both far from any pixel coordinate, are not modelled, nor is NaN.
\<close>

definition roundEven :: "real \<Rightarrow> int" where
  "roundEven v =
     (let f = \<lfloor>v\<rfloor>; d = v - of_int f
      in if d < 1 / 2 then f else if 1 / 2 < d then f + 1
         else if even f then f else f + 1)"

definition binade :: "real \<Rightarrow> int" where
  "binade v =
     (if 1 \<le> \<bar>v\<bar> then bitlen \<lfloor>\<bar>v\<bar>\<rfloor> - 1 else - bitlen (\<lceil>1 / \<bar>v\<bar>\<rceil> - 1))"

definition pow2 :: "int \<Rightarrow> real" where
  "pow2 k = (if 0 \<le> k then 2 ^ nat k else 1 / 2 ^ nat (- k))"

definition fl :: "real \<Rightarrow> real" where
  "fl v = (if v = 0 then 0
           else let q = pow2 (binade v - 52) in of_int (roundEven (v / q)) * q)"

section \<open>Positioning zones\<close>

record ICoordinates =
  row :: int
  col :: int

text \<open>
  \<open>isInPositioninZone(col, row, zones)\<close>: the parameters are declared in the order
  (col, row); both bounds of each test are inclusive.
\<close>

definition isInPositioninZone :: "int \<Rightarrow> int \<Rightarrow> ICoordinates list \<Rightarrow> bool" where
  "isInPositioninZone col' row' zones =
     list_ex (\<lambda>zone. row' \<ge> row zone \<and> row' \<le> row zone + 7 \<and>
                      col' \<ge> col zone \<and> col' \<le> col zone + 7) zones"

definition positioningZones :: "nat \<Rightarrow> ICoordinates list" where
  "positioningZones length' =
     [\<lparr>row = 0, col = 0\<rparr>,
      \<lparr>row = 0, col = int length' - 7\<rparr>,
      \<lparr>row = int length' - 7, col = 0\<rparr>]"

text \<open>
  The finder zones as the specification words them: three boxes of 7 by 7 modules
  anchored at (0,0), (0, N-7) and (N-7, 0).
\<close>

definition inFinderZone :: "nat \<Rightarrow> int \<Rightarrow> int \<Rightarrow> bool" where
  "inFinderZone n r c =
     ((0 \<le> r \<and> r < 7 \<and> 0 \<le> c \<and> c < 7) \<or>
      (0 \<le> r \<and> r < 7 \<and> int n - 7 \<le> c \<and> c < int n) \<or>
      (int n - 7 \<le> r \<and> r < int n \<and> 0 \<le> c \<and> c < 7))"

section \<open>The module loops\<close>

text \<open>
  Every style branch of \<open>update\<close> runs the same two nested loops over
  \<open>row, col < length\<close> with the same guard
  \<open>qrCode.isDark(row, col) && !this.isInPositioninZone(row, col, positioningZones)\<close>;
  the call passes (row, col) to the parameters (col, row).
\<close>

definition paintedCells :: "nat \<Rightarrow> (nat \<Rightarrow> nat \<Rightarrow> bool) \<Rightarrow> ICoordinates list \<Rightarrow> (nat \<times> nat) list" where
  "paintedCells length' isDark zones =
     concat (map (\<lambda>r. concat (map (\<lambda>c.
         if isDark r c \<and> \<not> isInPositioninZone (int r) (int c) zones then [(r, c)] else [])
       [0..<length'])) [0..<length'])"

definition forEachModule :: "nat \<Rightarrow> (nat \<Rightarrow> nat \<Rightarrow> bool) \<Rightarrow> ICoordinates list \<Rightarrow>
    (nat \<Rightarrow> nat \<Rightarrow> command list) \<Rightarrow> command list" where
  "forEachModule length' isDark zones body =
     concat (map (\<lambda>(r, c). body r c) (paintedCells length' isDark zones))"

subsection \<open>The shape painted at one cell, per style\<close>

definition heartCell :: "real \<Rightarrow> real \<Rightarrow> nat \<Rightarrow> nat \<Rightarrow> command list" where
  "heartCell cellSize offset r c =
     (let centerX = Math_round (real c * cellSize) + cellSize / 2 + offset;
          centerY = Math_round (real r * cellSize) + cellSize / 2 + offset;
          radius = cellSize / 4
      in [BeginPath,
          MoveTo centerX (centerY + radius),
          BezierCurveTo (centerX + radius) (centerY + radius / 1.5)
                        (centerX + radius * 2) (centerY - radius / 3)
                        centerX (centerY - radius * 2),
          BezierCurveTo (centerX - radius * 2) (centerY - radius / 3)
                        (centerX - radius) (centerY + radius / 1.5)
                        centerX (centerY + radius),
          ClosePath, Fill])"

definition starCell :: "real \<Rightarrow> real \<Rightarrow> nat \<Rightarrow> nat \<Rightarrow> command list" where
  "starCell cellSize offset r c =
     (let starPoints = (5::nat);
          outerRadius = cellSize / 2;
          innerRadius = outerRadius / 2;
          centerX = Math_round (real c * cellSize) + cellSize / 2 + offset;
          centerY = Math_round (real r * cellSize) + cellSize / 2 + offset;
          angle = pi / 5
      in [BeginPath] @
         map (\<lambda>i. let radius = (if i mod 2 = 0 then outerRadius else innerRadius);
                       x = centerX + radius * cos (real i * angle);
                       y = centerY - radius * sin (real i * angle)
                   in if i = 0 then MoveTo x y else LineTo x y)
             [0..<2 * starPoints] @
         [ClosePath, Fill])"

definition diamondCell :: "real \<Rightarrow> real \<Rightarrow> nat \<Rightarrow> nat \<Rightarrow> command list" where
  "diamondCell cellSize offset r c =
     (let halfCellSize = cellSize / 2;
          centerX = Math_round (real c * cellSize) + halfCellSize + offset;
          centerY = Math_round (real r * cellSize) + halfCellSize + offset
      in [BeginPath,
          MoveTo centerX (centerY - halfCellSize),
          LineTo (centerX + halfCellSize) centerY,
          LineTo centerX (centerY + halfCellSize),
          LineTo (centerX - halfCellSize) centerY,
          ClosePath, Fill])"

text \<open>
  The octagon, pentagon and triangle branches are the same code with
  \<open>numSides\<close> 8, 5 and 3.
\<close>

definition polygonCell :: "nat \<Rightarrow> real \<Rightarrow> real \<Rightarrow> nat \<Rightarrow> nat \<Rightarrow> command list" where
  "polygonCell numSides cellSize offset r c =
     (let radius = cellSize / 2;
          angleStep = (2 * pi) / real numSides;
          centerX = Math_round (real c * cellSize) + radius + offset;
          centerY = Math_round (real r * cellSize) + radius + offset
      in [BeginPath] @
         map (\<lambda>i. let x = centerX + radius * cos (real i * angleStep);
                       y = centerY + radius * sin (real i * angleStep)
                   in if i = 0 then MoveTo x y else LineTo x y)
             [0..<numSides] @
         [ClosePath, Fill])"

definition dotCell :: "real \<Rightarrow> real \<Rightarrow> nat \<Rightarrow> nat \<Rightarrow> command list" where
  "dotCell cellSize offset r c =
     (let radius = cellSize / 2
      in [BeginPath,
          Arc (Math_round (real c * cellSize) + radius + offset)
              (Math_round (real r * cellSize) + radius + offset)
              ((radius / 100) * 75) 0 (2 * pi) False,
          ClosePath, Fill])"

text \<open>
  The fluid branch: the body of the loop computes the cell's box and its four
  neighbours (a neighbour outside the grid is not looked up), then issues the path.
  The box is taken over exact products; which corners the path rounds does not depend
  on it.
\<close>

definition fluidPath :: "string \<Rightarrow> real \<Rightarrow> real \<Rightarrow> real \<Rightarrow> real \<Rightarrow> real \<Rightarrow>
    bool \<Rightarrow> bool \<Rightarrow> bool \<Rightarrow> bool \<Rightarrow> command list" where
  "fluidPath fgColor x y w h radius isDarkUp isDarkDown isDarkLeft isDarkRight =
     [SetFillStyle fgColor, BeginPath] @
     (if \<not> isDarkUp \<and> \<not> isDarkLeft then [MoveTo (x + radius) y] else [MoveTo x y]) @
     (if \<not> isDarkUp \<and> \<not> isDarkRight
      then [LineTo (x + w - radius) y, QuadraticCurveTo (x + w) y (x + w) (y + radius)]
      else [LineTo (x + w) y]) @
     (if \<not> isDarkRight \<and> \<not> isDarkDown
      then [LineTo (x + w) (y + h - radius),
            QuadraticCurveTo (x + w) (y + h) (x + w - radius) (y + h)]
      else [LineTo (x + w) (y + h)]) @
     (if \<not> isDarkDown \<and> \<not> isDarkLeft
      then [LineTo (x + radius) (y + h), QuadraticCurveTo x (y + h) x (y + h - radius)]
      else [LineTo x (y + h)]) @
     (if \<not> isDarkLeft \<and> \<not> isDarkUp
      then [LineTo x (y + radius), QuadraticCurveTo x y (x + radius) y]
      else [LineTo x y]) @
     [ClosePath, Fill]"

definition fluidCell :: "(nat \<Rightarrow> nat \<Rightarrow> bool) \<Rightarrow> nat \<Rightarrow> string \<Rightarrow> real \<Rightarrow> real \<Rightarrow>
    nat \<Rightarrow> nat \<Rightarrow> command list" where
  "fluidCell isDark length' fgColor cellSize offset r c =
     (let radius = cellSize / 1.5;
          x = Math_round (real c * cellSize) + offset;
          y = Math_round (real r * cellSize) + offset;
          w = Math_ceil ((real c + 1) * cellSize) - Math_floor (real c * cellSize);
          h = Math_ceil ((real r + 1) * cellSize) - Math_floor (real r * cellSize);
          isDarkUp = (r > 0 \<and> isDark (r - 1) c);
          isDarkDown = (int r < int length' - 1 \<and> isDark (r + 1) c);
          isDarkLeft = (c > 0 \<and> isDark r (c - 1));
          isDarkRight = (int c < int length' - 1 \<and> isDark r (c + 1))
      in fluidPath fgColor x y w h radius isDarkUp isDarkDown isDarkLeft isDarkRight)"

text \<open>
  The default branch. The width and height are differences of whole pixels, so the
  last bit of a product decides them: the products are doubles.
\<close>

definition squareCell :: "string \<Rightarrow> real \<Rightarrow> real \<Rightarrow> nat \<Rightarrow> nat \<Rightarrow> command list" where
  "squareCell fgColor cellSize offset r c =
     (let w = Math_ceil (fl ((real c + 1) * cellSize)) - Math_floor (fl (real c * cellSize));
          h = Math_ceil (fl ((real r + 1) * cellSize)) - Math_floor (fl (real r * cellSize))
      in [SetFillStyle fgColor,
          FillRect (Math_round (fl (real c * cellSize)) + offset)
                   (Math_round (fl (real r * cellSize)) + offset) w h])"

subsection \<open>The style dispatch of \<open>update\<close>\<close>

text \<open>
  \<open>qrStyle\<close> is compared against the eight non-default tags in this order; any other
  value, and an unset style, falls to the final \<open>else\<close> (squares). The six
  branches before \<open>dots\<close>, and \<open>dots\<close>, set the fill style once before
  their loops; \<open>fluid\<close> and squares set it at every painted cell.
\<close>

definition cellShape :: "string option \<Rightarrow> (nat \<Rightarrow> nat \<Rightarrow> bool) \<Rightarrow> nat \<Rightarrow> string \<Rightarrow>
    real \<Rightarrow> real \<Rightarrow> nat \<Rightarrow> nat \<Rightarrow> command list" where
  "cellShape qrStyle isDark length' fgColor cellSize offset r c =
     (if qrStyle = Some ''hearts'' then heartCell cellSize offset r c
      else if qrStyle = Some ''stars'' then starCell cellSize offset r c
      else if qrStyle = Some ''diamonds'' then diamondCell cellSize offset r c
      else if qrStyle = Some ''octagons'' then polygonCell 8 cellSize offset r c
      else if qrStyle = Some ''pentagons'' then polygonCell 5 cellSize offset r c
      else if qrStyle = Some ''triangles'' then polygonCell 3 cellSize offset r c
      else if qrStyle = Some ''dots'' then dotCell cellSize offset r c
      else if qrStyle = Some ''fluid'' then fluidCell isDark length' fgColor cellSize offset r c
      else squareCell fgColor cellSize offset r c)"

definition drawModules :: "string option \<Rightarrow> (nat \<Rightarrow> nat \<Rightarrow> bool) \<Rightarrow> nat \<Rightarrow> string \<Rightarrow>
    real \<Rightarrow> real \<Rightarrow> ICoordinates list \<Rightarrow> command list" where
  "drawModules qrStyle isDark length' fgColor cellSize offset zones =
     (if qrStyle = Some ''hearts'' then
        SetFillStyle fgColor # forEachModule length' isDark zones (heartCell cellSize offset)
      else if qrStyle = Some ''stars'' then
        SetFillStyle fgColor # forEachModule length' isDark zones (starCell cellSize offset)
      else if qrStyle = Some ''diamonds'' then
        SetFillStyle fgColor # forEachModule length' isDark zones (diamondCell cellSize offset)
      else if qrStyle = Some ''octagons'' then
        SetFillStyle fgColor # forEachModule length' isDark zones (polygonCell 8 cellSize offset)
      else if qrStyle = Some ''pentagons'' then
        SetFillStyle fgColor # forEachModule length' isDark zones (polygonCell 5 cellSize offset)
      else if qrStyle = Some ''triangles'' then
        SetFillStyle fgColor # forEachModule length' isDark zones (polygonCell 3 cellSize offset)
      else if qrStyle = Some ''dots'' then
        SetFillStyle fgColor # forEachModule length' isDark zones (dotCell cellSize offset)
      else if qrStyle = Some ''fluid'' then
        forEachModule length' isDark zones (fluidCell isDark length' fgColor cellSize offset)
      else
        forEachModule length' isDark zones (squareCell fgColor cellSize offset))"

section \<open>The rounded square primitive\<close>

text \<open>The parameter \<open>radii: number | number[]\<close> of \<open>drawRoundedSquare\<close>.\<close>

datatype numOrList = Num real | NumList "real list"

text \<open>
  After \<open>size -= lineWidth\<close>: a scalar becomes four equal radii, and
  \<open>radii.map\<close> clamps every element, first from above and then from below.
\<close>

definition clampRadius :: "real \<Rightarrow> real \<Rightarrow> real" where
  "clampRadius size0 r0 = (let r1 = min r0 (size0 / 2) in if r1 < 0 then 0 else r1)"

definition normalizeRadii :: "real \<Rightarrow> numOrList \<Rightarrow> real list" where
  "normalizeRadii size0 radii =
     map (clampRadius size0) (case radii of Num r0 \<Rightarrow> [r0, r0, r0, r0] | NumList rs \<Rightarrow> rs)"

text \<open>
  \<open>radii[k] || 0\<close>: reading past the end of the array gives \<open>undefined\<close>, which
  the \<open>||\<close> turns into 0.
\<close>

definition cornerRadius :: "real list \<Rightarrow> nat \<Rightarrow> real" where
  "cornerRadius rs k = (if k < length rs then (if rs ! k = 0 then 0 else rs ! k) else 0)"

text \<open>The four radii \<open>rTopLeft\<close>, \<open>rTopRight\<close>, \<open>rBottomRight\<close>, \<open>rBottomLeft\<close> of
  \<open>drawRoundedSquare\<close>, in this order, for the arguments as the caller passes them.\<close>

definition effectiveRadii :: "real \<Rightarrow> real \<Rightarrow> numOrList \<Rightarrow> real list" where
  "effectiveRadii lineWidth size0 radii =
     map (cornerRadius (normalizeRadii (size0 - lineWidth) radii)) [0, 1, 2, 3]"

text \<open>
  \<open>drawRoundedSquare\<close> sets the line width and the colours, moves the box inward by
  half the line width, computes the four radii, then issues the path.
\<close>

definition roundedSquarePath :: "real \<Rightarrow> real \<Rightarrow> real \<Rightarrow> real \<Rightarrow> real \<Rightarrow> real \<Rightarrow> real \<Rightarrow>
    bool \<Rightarrow> command list" where
  "roundedSquarePath x y size1 rTopLeft rTopRight rBottomRight rBottomLeft fill =
     [BeginPath,
      MoveTo (x + rTopLeft) y,
      LineTo (x + size1 - rTopRight) y] @
     (if rTopRight \<noteq> 0 then [QuadraticCurveTo (x + size1) y (x + size1) (y + rTopRight)]
      else []) @
     [LineTo (x + size1) (y + size1 - rBottomRight)] @
     (if rBottomRight \<noteq> 0
      then [QuadraticCurveTo (x + size1) (y + size1) (x + size1 - rBottomRight) (y + size1)]
      else []) @
     [LineTo (x + rBottomLeft) (y + size1)] @
     (if rBottomLeft \<noteq> 0 then [QuadraticCurveTo x (y + size1) x (y + size1 - rBottomLeft)]
      else []) @
     [LineTo x (y + rTopLeft)] @
     (if rTopLeft \<noteq> 0 then [QuadraticCurveTo x y (x + rTopLeft) y] else []) @
     [ClosePath, Stroke] @
     (if fill then [Fill] else [])"

definition drawRoundedSquare :: "real \<Rightarrow> real \<Rightarrow> real \<Rightarrow> real \<Rightarrow> string \<Rightarrow> numOrList \<Rightarrow> bool \<Rightarrow>
    command list" where
  "drawRoundedSquare lineWidth x0 y0 size0 color radii fill =
     (let y = y0 + lineWidth / 2;
          x = x0 + lineWidth / 2;
          size1 = size0 - lineWidth;
          rs = normalizeRadii size1 radii;
          rTopLeft = cornerRadius rs 0;
          rTopRight = cornerRadius rs 1;
          rBottomRight = cornerRadius rs 2;
          rBottomLeft = cornerRadius rs 3
      in [SetLineWidth lineWidth, SetFillStyle color, SetStrokeStyle color] @
         roundedSquarePath x y size1 rTopLeft rTopRight rBottomRight rBottomLeft fill)"

section \<open>The positioning patterns\<close>

text \<open>\<open>type EyeColor = string | InnerOuterEyeColor\<close>, the latter written inner first.\<close>

datatype EyeColor = Color string | InnerOuterEyeColor string string

text \<open>
  \<open>type CornerRadii = number | [number, number, number, number] | InnerOuterRadii\<close>,
  the latter written inner first.
\<close>

datatype CornerRadii = Radius real | Radii "real list" | InnerOuterRadii numOrList numOrList

text \<open>A call of \<open>drawRoundedSquare\<close>, with its arguments in the source's order
  (line width, x, y, size, colour, radii, fill).\<close>

datatype call = RoundedSquare real real real real string numOrList bool

fun runCall :: "call \<Rightarrow> command list" where
  "runCall (RoundedSquare lineWidth x0 y0 size0 color radii fill) =
     drawRoundedSquare lineWidth x0 y0 size0 color radii fill"

datatype error = TypeError

text \<open>\<open>v || 0\<close> on a number or an array.\<close>

fun orZero :: "numOrList \<Rightarrow> numOrList" where
  "orZero (Num v) = (if v = 0 then Num 0 else Num v)"
| "orZero (NumList vs) = NumList vs"

text \<open>
  \<open>drawPositioningPattern\<close>. An \<open>undefined\<close> radii argument takes the parameter's
  default \<open>[0, 0, 0, 0]\<close>. An \<open>undefined\<close> colour is not a string, so the source
  reads \<open>color.outer\<close> of it, which throws before anything is drawn.
\<close>

definition drawPositioningPattern :: "real \<Rightarrow> real \<Rightarrow> int \<Rightarrow> int \<Rightarrow> EyeColor option \<Rightarrow>
    CornerRadii option \<Rightarrow> error + call list" where
  "drawPositioningPattern cellSize offset row0 col0 color radiiArg =
     (let radii = (case radiiArg of None \<Rightarrow> Radii [0, 0, 0, 0] | Some v \<Rightarrow> v);
          lineWidth = Math_ceil cellSize;
          (radiiOuter, radiiInner) =
            (case radii of
               InnerOuterRadii inner outer \<Rightarrow> (orZero outer, orZero inner)
             | Radius v \<Rightarrow> (Num v, Num v)
             | Radii vs \<Rightarrow> (NumList vs, NumList vs))
      in case color of
           None \<Rightarrow> Inl TypeError
         | Some col1 \<Rightarrow>
             (let (colorOuter, colorInner) =
                    (case col1 of
                       InnerOuterEyeColor inner outer \<Rightarrow> (outer, inner)
                     | Color s \<Rightarrow> (s, s));
                  y = real_of_int row0 * cellSize + offset;
                  x = real_of_int col0 * cellSize + offset
              in Inr [RoundedSquare lineWidth x y (cellSize * 7) colorOuter radiiOuter False,
                      RoundedSquare lineWidth (x + cellSize * 2) (y + cellSize * 2)
                        (cellSize * 3) colorInner radiiInner True]))"

section \<open>The component's properties\<close>

text \<open>
  \<open>eyeRadius?: CornerRadii | [CornerRadii, CornerRadii, CornerRadii]\<close> and
  \<open>eyeColor?: EyeColor | [EyeColor, EyeColor, EyeColor]\<close>. The arrays are lists:
  JavaScript does not check their length, and reading past the end gives
  \<open>undefined\<close>.
\<close>

datatype EyeRadiusProp = OneRadii CornerRadii | PerEyeRadii "CornerRadii list"

datatype EyeColorProp = OneColor EyeColor | PerEyeColor "EyeColor list"

text \<open>The encoder's result: \<open>getModuleCount()\<close> and \<open>isDark(row, col)\<close>.\<close>

record QRData =
  moduleCount :: nat
  isDark :: "nat \<Rightarrow> nat \<Rightarrow> bool"

text \<open>
  \<open>IProps\<close>, after the component's \<open>defaultProps\<close> are merged in. An optional
  property without a default is an option; \<open>logoOnLoad\<close> records whether a callback
  was given, \<open>removeQrCodeBehindLogo\<close> and \<open>enableCORS\<close> are false when absent.
  \<open>id\<close> and \<open>style\<close> are used by \<open>render\<close> only.
\<close>

record IProps =
  "value" :: string
  ecLevel :: string
  enableCORS :: bool
  size' :: real
  quietZone :: real
  bgColor :: string
  fgColor :: string
  logoImage :: "string option"
  logoWidth :: "real option"
  logoHeight :: "real option"
  logoOpacity :: real
  logoOnLoad :: bool
  removeQrCodeBehindLogo :: bool
  logoPadding :: "real option"
  logoPaddingStyle :: string
  eyeRadius :: "EyeRadiusProp option"
  eyeColor :: "EyeColorProp option"
  qrStyle :: "string option"

section \<open>The eyes in \<open>update\<close>\<close>

text \<open>
  The radii handed to eye \<open>i\<close>: an array is indexed by \<open>i\<close> whatever it holds
  (so a 4-tuple of numbers passed for all eyes is indexed too), and a number
  becomes four equal radii. \<open>None\<close> is \<open>undefined\<close>.
\<close>

definition eyeRadii :: "EyeRadiusProp option \<Rightarrow> nat \<Rightarrow> CornerRadii option" where
  "eyeRadii prop i =
     (let indexed =
            (case prop of
               None \<Rightarrow> None
             | Some (OneRadii (Radii vs)) \<Rightarrow> (if i < length vs then Some (Radius (vs ! i)) else None)
             | Some (OneRadii v) \<Rightarrow> Some v
             | Some (PerEyeRadii vs) \<Rightarrow> (if i < length vs then Some (vs ! i) else None))
      in case indexed of
           Some (Radius v) \<Rightarrow> Some (Radii [v, v, v, v])
         | other \<Rightarrow> other)"

text \<open>\<open>!eyeColor\<close>: true of \<open>undefined\<close> and of the empty string.\<close>

definition eyeColorUnset :: "EyeColorProp option \<Rightarrow> bool" where
  "eyeColorUnset prop = (prop = None \<or> prop = Some (OneColor (Color [])))"

definition eyeColorAt :: "EyeColorProp option \<Rightarrow> string \<Rightarrow> nat \<Rightarrow> EyeColor option" where
  "eyeColorAt prop fg i =
     (if eyeColorUnset prop then Some (Color fg)
      else case prop of
             Some (PerEyeColor vs) \<Rightarrow> (if i < length vs then Some (vs ! i) else None)
           | Some (OneColor v) \<Rightarrow> Some v
           | None \<Rightarrow> Some (Color fg))"

text \<open>The body of the loop \<open>for (let i = 0; i < 3; i++)\<close>, for one \<open>i\<close>.\<close>

definition eyeCalls :: "IProps \<Rightarrow> nat \<Rightarrow> real \<Rightarrow> nat \<Rightarrow> error + call list" where
  "eyeCalls props length' cellSize i =
     (let zone = positioningZones length' ! i
      in drawPositioningPattern cellSize (quietZone props) (row zone) (col zone)
           (eyeColorAt (eyeColor props) (fgColor props) i)
           (eyeRadii (eyeRadius props) i))"

text \<open>The loop: an exception leaves the loop and keeps what was drawn before it.\<close>

fun drawEyes :: "IProps \<Rightarrow> nat \<Rightarrow> real \<Rightarrow> nat list \<Rightarrow> command list \<times> error option" where
  "drawEyes props length' cellSize [] = ([], None)"
| "drawEyes props length' cellSize (i # rest) =
     (case eyeCalls props length' cellSize i of
        Inl e \<Rightarrow> ([], Some e)
      | Inr calls \<Rightarrow>
          (let (cmds, err) = drawEyes props length' cellSize rest
           in (concat (map runCall calls) @ cmds, err)))"

section \<open>The synchronous paint of \<open>update\<close>\<close>

text \<open>
  The encoder (\<open>qrGenerator\<close> applied to the converted \<open>value\<close> and \<open>ecLevel\<close>) and
  \<open>window.devicePixelRatio\<close> are parameters. The result is what was drawn and the
  exception that ended the pass, if any. The cell size is the double quotient. The
  encoder returns a positive module count; for a count of 0 the division is 0 here,
  where JavaScript gives an infinity or NaN.
\<close>

definition syncPaint :: "(string \<Rightarrow> string \<Rightarrow> QRData) \<Rightarrow> real \<Rightarrow> IProps \<Rightarrow> command list \<times> error option" where
  "syncPaint qrGenerator devicePixelRatio props =
     (let qrCode = qrGenerator (value props) (ecLevel props);
          canvasSize = size' props + 2 * quietZone props;
          length' = moduleCount qrCode;
          cellSize = fl (size' props / real length');
          scale = (if devicePixelRatio = 0 then 1 else devicePixelRatio);
          offset = quietZone props;
          zones = positioningZones length';
          (eyes, err) = drawEyes props length' cellSize [0, 1, 2]
      in ([SetCanvasSize (canvasSize * scale) (canvasSize * scale),
           Scale scale scale,
           SetFillStyle (bgColor props),
           FillRect 0 0 canvasSize canvasSize,
           SetStrokeStyle (fgColor props)] @
          drawModules (qrStyle props) (isDark qrCode) length' (fgColor props) cellSize offset zones @
          eyes, err))"

section \<open>The logo\<close>

text \<open>\<open>this.props.logoWidth ? +this.props.logoWidth : 0\<close>, and the same for the
  height and the padding.\<close>

definition numberOrZero :: "real option \<Rightarrow> real" where
  "numberOrZero v = (case v of None \<Rightarrow> 0 | Some n \<Rightarrow> (if n = 0 then 0 else n))"

definition dWidthLogo :: "IProps \<Rightarrow> real" where
  "dWidthLogo props =
     (let logoWidth0 = numberOrZero (logoWidth props)
      in if logoWidth0 \<noteq> 0 then logoWidth0 else size' props * 0.2)"

definition dHeightLogo :: "IProps \<Rightarrow> real" where
  "dHeightLogo props =
     (let logoHeight0 = numberOrZero (logoHeight props)
      in if logoHeight0 \<noteq> 0 then logoHeight0 else dWidthLogo props)"

definition dxLogo :: "IProps \<Rightarrow> real" where
  "dxLogo props = (size' props - dWidthLogo props) / 2"

definition dyLogo :: "IProps \<Rightarrow> real" where
  "dyLogo props = (size' props - dHeightLogo props) / 2"

text \<open>The region cleared behind the logo, inside \<open>image.onload\<close>.\<close>

definition logoClearing :: "IProps \<Rightarrow> command list" where
  "logoClearing props =
     (let logoPadding0 = numberOrZero (logoPadding props);
          offset = quietZone props
      in if removeQrCodeBehindLogo props \<or> logoPadding0 \<noteq> 0 then
           (let dWidthLogoPadding = dWidthLogo props + 2 * logoPadding0;
                dHeightLogoPadding = dHeightLogo props + 2 * logoPadding0;
                dxLogoPadding = dxLogo props + offset - logoPadding0;
                dyLogoPadding = dyLogo props + offset - logoPadding0
            in [BeginPath, SetStrokeStyle (bgColor props), SetFillStyle (bgColor props)] @
               (if logoPaddingStyle props = ''circle'' then
                  [Ellipse (dxLogoPadding + dWidthLogoPadding / 2)
                           (dyLogoPadding + dHeightLogoPadding / 2)
                           (dWidthLogoPadding / 2) (dHeightLogoPadding / 2) 0 0 (2 * pi),
                   Stroke, Fill]
                else
                  [FillRect dxLogoPadding dyLogoPadding dWidthLogoPadding dHeightLogoPadding]))
         else [])"

text \<open>
  \<open>image.onload\<close>, for the image of the given source: what is drawn once the image
  has loaded.
\<close>

definition onload :: "IProps \<Rightarrow> string \<Rightarrow> command list" where
  "onload props img =
     [Save] @ logoClearing props @
     [SetGlobalAlpha (logoOpacity props),
      DrawImage img (dxLogo props + quietZone props) (dyLogo props + quietZone props)
        (dWidthLogo props) (dHeightLogo props),
      Restore] @
     (if logoOnLoad props then [LogoOnLoad] else [])"

text \<open>
  The end of \<open>update\<close>: \<open>if (logoImage)\<close> is false of \<open>undefined\<close> and of the empty
  string, and is reached only when the synchronous paint threw nothing. The result
  is what the load's completion will draw; \<open>None\<close> when no load is started.
\<close>

definition logoOverlay :: "(string \<Rightarrow> string \<Rightarrow> QRData) \<Rightarrow> real \<Rightarrow> IProps \<Rightarrow> command list option" where
  "logoOverlay qrGenerator devicePixelRatio props =
     (case snd (syncPaint qrGenerator devicePixelRatio props) of
        Some e \<Rightarrow> None
      | None \<Rightarrow>
          (case logoImage props of
             None \<Rightarrow> None
           | Some src \<Rightarrow> (if src = [] then None else Some (onload props src))))"

text \<open>The occlusion predicate; no other function of the source calls it.\<close>

definition transformPixelLengthIntoNumberOfCells :: "real \<Rightarrow> real \<Rightarrow> real" where
  "transformPixelLengthIntoNumberOfCells pixelLength cellSize = pixelLength / cellSize"

definition isCoordinateInImage :: "real \<Rightarrow> real \<Rightarrow> real \<Rightarrow> real \<Rightarrow> real \<Rightarrow> real \<Rightarrow> real \<Rightarrow>
    string option \<Rightarrow> bool" where
  "isCoordinateInImage col0 row0 dWidthLogo0 dHeightLogo0 dxLogo0 dyLogo0 cellSize logoImage0 =
     (if logoImage0 \<noteq> None \<and> logoImage0 \<noteq> Some [] then
        (let numberOfCellsMargin = 2;
             firstRowOfLogo = transformPixelLengthIntoNumberOfCells dxLogo0 cellSize;
             firstColumnOfLogo = transformPixelLengthIntoNumberOfCells dyLogo0 cellSize;
             logoWidthInCells = transformPixelLengthIntoNumberOfCells dWidthLogo0 cellSize - 1;
             logoHeightInCells = transformPixelLengthIntoNumberOfCells dHeightLogo0 cellSize - 1
         in row0 \<ge> firstRowOfLogo - numberOfCellsMargin \<and>
            row0 \<le> firstRowOfLogo + logoWidthInCells + numberOfCellsMargin \<and>
            col0 \<ge> firstColumnOfLogo - numberOfCellsMargin \<and>
            col0 \<le> firstColumnOfLogo + logoHeightInCells + numberOfCellsMargin)
      else False)"

section \<open>Notions the properties are stated with\<close>






definition regularPolygon :: "nat \<Rightarrow> real \<Rightarrow> real \<Rightarrow> real \<Rightarrow> (real \<times> real) list" where
  "regularPolygon k rad cx cy =
     map (\<lambda>i. (cx + rad * cos (real i * (2 * pi / real k)),
               cy + rad * sin (real i * (2 * pi / real k)))) [0..<k]"

definition starVertices :: "real \<Rightarrow> real \<Rightarrow> real \<Rightarrow> (real \<times> real) list" where
  "starVertices rad cx cy =
     map (\<lambda>i. (cx + (if even i then rad else rad / 2) * cos (real i * (pi / 5)),
               cy - (if even i then rad else rad / 2) * sin (real i * (pi / 5)))) [0..<10]"



text \<open>
  The encoder produces QR symbols. In a QR symbol every finder pattern is set off
  from the rest by its separator, a band one module wide around the 7 by 7 pattern
  (as far as it lies in the grid), and the modules of the separators are light.
\<close>

definition aroundFinderZone :: "nat \<Rightarrow> int \<Rightarrow> int \<Rightarrow> bool" where
  "aroundFinderZone n r c =
     ((- 1 \<le> r \<and> r \<le> 7 \<and> - 1 \<le> c \<and> c \<le> 7) \<or>
      (- 1 \<le> r \<and> r \<le> 7 \<and> int n - 8 \<le> c \<and> c \<le> int n) \<or>
      (int n - 8 \<le> r \<and> r \<le> int n \<and> - 1 \<le> c \<and> c \<le> 7))"

definition inSeparator :: "nat \<Rightarrow> int \<Rightarrow> int \<Rightarrow> bool" where
  "inSeparator n r c = (aroundFinderZone n r c \<and> \<not> inFinderZone n r c)"

definition separatorsLight :: "(nat \<Rightarrow> nat \<Rightarrow> bool) \<Rightarrow> nat \<Rightarrow> bool" where
  "separatorsLight dark n =
     list_all (\<lambda>r. list_all (\<lambda>c. inSeparator n (int r) (int c) \<longrightarrow> \<not> dark r c) [0..<n]) [0..<n]"

text \<open>The colour a call of \<open>drawRoundedSquare\<close> is given.\<close>

fun callColor :: "call \<Rightarrow> string" where
  "callColor (RoundedSquare lineWidth x0 y0 size0 color radii fill) = color"

fun callFill :: "call \<Rightarrow> bool" where
  "callFill (RoundedSquare lineWidth x0 y0 size0 color radii fill) = fill"

text \<open>
  The colours of an eye: of its stroke-only ring and of its filled square, when the
  calls are one stroke-only square followed by one filled square.
\<close>

definition ringColours :: "call list \<Rightarrow> (string \<times> string) option" where
  "ringColours calls =
     (case calls of
        [ring, square] \<Rightarrow>
          (if \<not> callFill ring \<and> callFill square
           then Some (callColor ring, callColor square) else None)
      | _ \<Rightarrow> None)"

text \<open>Two configurations that agree on every option that is not a logo option.\<close>

definition sameNonLogo :: "IProps \<Rightarrow> IProps \<Rightarrow> bool" where
  "sameNonLogo p q =
     (value p = value q \<and> ecLevel p = ecLevel q \<and> size' p = size' q \<and>
      quietZone p = quietZone q \<and> bgColor p = bgColor q \<and> fgColor p = fgColor q \<and>
      eyeRadius p = eyeRadius q \<and> eyeColor p = eyeColor q \<and> qrStyle p = qrStyle q)"

section \<open>Test data\<close>

text \<open>
  A grid of size 21 laid out as a QR symbol is: the three finder zones dark, the
  separators around them light, and dark modules in rows 8 to 12 and in columns 8 to
  12.
\<close>

definition sampleGrid :: "nat \<Rightarrow> nat \<Rightarrow> bool" where
  "sampleGrid r c =
     (inFinderZone 21 (int r) (int c) \<or> (8 \<le> r \<and> r \<le> 12) \<or> (8 \<le> c \<and> c \<le> 12))"

text \<open>A grid whose only dark module sits at row 10, column 10.\<close>

definition isolatedGrid :: "nat \<Rightarrow> nat \<Rightarrow> bool" where
  "isolatedGrid r c = (r = 10 \<and> c = 10)"

text \<open>A grid with every module dark, and an encoder that returns it at size 21.\<close>

definition allDark :: "nat \<Rightarrow> nat \<Rightarrow> bool" where
  "allDark r c = True"

definition sampleQR :: "string \<Rightarrow> string \<Rightarrow> QRData" where
  "sampleQR v e = \<lparr>moduleCount = 21, isDark = allDark\<rparr>"

text \<open>The component's \<open>defaultProps\<close>; the properties without a default are unset.\<close>

definition defaultProps :: IProps where
  "defaultProps =
     \<lparr>value = ''https://reactjs.org/'', ecLevel = ''M'', enableCORS = False,
      size' = 150, quietZone = 10, bgColor = ''#FFFFFF'', fgColor = ''#000000'',
      logoImage = None, logoWidth = None, logoHeight = None, logoOpacity = 1,
      logoOnLoad = False, removeQrCodeBehindLogo = False, logoPadding = None,
      logoPaddingStyle = ''square'',
      eyeRadius = Some (PerEyeRadii [Radius 0, Radius 0, Radius 0]),
      eyeColor = None, qrStyle = Some ''squares''\<rparr>"

text \<open>
  The default properties with an eye colour given for index 0 only, and with the
  other two entries given as the foreground colour.
\<close>

definition eyeZeroOnlyProps :: IProps where
  "eyeZeroOnlyProps =
     defaultProps\<lparr>eyeColor := Some (PerEyeColor [InnerOuterEyeColor ''#FF0000'' ''#0000FF''])\<rparr>"

definition eyeZeroPairProps :: IProps where
  "eyeZeroPairProps =
     defaultProps\<lparr>eyeColor := Some (PerEyeColor
       [InnerOuterEyeColor ''#FF0000'' ''#0000FF'', Color ''#000000'', Color ''#000000''])\<rparr>"

text \<open>The default properties with a logo.\<close>

definition logoProps :: IProps where
  "logoProps =
     defaultProps\<lparr>logoImage := Some ''logo.png'', logoWidth := Some 40,
       removeQrCodeBehindLogo := True, logoOnLoad := True\<rparr>"

section \<open>The double nearest to a real\<close>

text \<open>
  \<open>binade\<close> finds the binade, so \<open>fl v\<close> is a multiple of the spacing of the doubles
  around \<open>v\<close> and lies within half that spacing of \<open>v\<close>.
\<close>

lemma pow2_pos: "0 < pow2 k"
  by (simp add: pow2_def)

lemma pow2_nat: "0 \<le> k \<Longrightarrow> pow2 k = 2 ^ nat k"
  by (simp add: pow2_def)

lemma binade_bounds:
  assumes "v \<noteq> 0"
  shows "pow2 (binade v) \<le> \<bar>v\<bar> \<and> \<bar>v\<bar> < pow2 (binade v + 1)"
proof (cases "1 \<le> \<bar>v\<bar>")
  case True
  define a where "a = \<lfloor>\<bar>v\<bar>\<rfloor>"
  have a: "1 \<le> a" using True by (simp add: a_def le_floor_iff)
  then have b: "2 ^ nat (bitlen a - 1) \<le> a" "a < 2 ^ nat (bitlen a)"
    using bitlen_bounds [of a] by simp_all
  have k: "1 \<le> bitlen a" using a by (simp add: bitlen_alt_def)
  have e: "binade v = bitlen a - 1" using True by (simp add: binade_def a_def)
  have "(2::real) ^ nat (bitlen a - 1) \<le> real_of_int a" using b(1) by simp
  moreover have "real_of_int a \<le> \<bar>v\<bar>" by (simp add: a_def)
  ultimately have "(2::real) ^ nat (bitlen a - 1) \<le> \<bar>v\<bar>" by linarith
  then have lo: "pow2 (binade v) \<le> \<bar>v\<bar>" using k by (simp add: e pow2_def)
  have "a + 1 \<le> 2 ^ nat (bitlen a)" using b(2) by simp
  then have "real_of_int (a + 1) \<le> (2::real) ^ nat (bitlen a)" by (simp add: of_int_le_numeral_power_cancel_iff del: of_int_add)
  moreover have "\<bar>v\<bar> < real_of_int (a + 1)" unfolding a_def by linarith
  ultimately have "\<bar>v\<bar> < (2::real) ^ nat (bitlen a)" by linarith
  then have "\<bar>v\<bar> < pow2 (binade v + 1)" using k by (simp add: e pow2_def)
  with lo show ?thesis by simp
next
  case False
  define y where "y = 1 / \<bar>v\<bar>"
  define b where "b = \<lceil>y\<rceil> - 1"
  have v: "0 < \<bar>v\<bar>" "\<bar>v\<bar> < 1" using assms False by simp_all
  then have y: "1 < y" by (simp add: y_def)
  then have b1: "1 \<le> b" unfolding b_def by (simp add: less_ceiling_iff)
  then have bb: "2 ^ nat (bitlen b - 1) \<le> b" "b < 2 ^ nat (bitlen b)"
    using bitlen_bounds [of b] by simp_all
  have k: "1 \<le> bitlen b" using b1 by (simp add: bitlen_alt_def)
  have e: "binade v = - bitlen b" using False by (simp add: binade_def b_def y_def)
  have yb: "real_of_int b < y" "y \<le> real_of_int b + 1" unfolding b_def by linarith+
  have "b + 1 \<le> 2 ^ nat (bitlen b)" using bb(2) by simp
  then have "real_of_int (b + 1) \<le> (2::real) ^ nat (bitlen b)" by (simp add: of_int_le_numeral_power_cancel_iff del: of_int_add)
  then have "y \<le> 2 ^ nat (bitlen b)" using yb(2) by simp
  then have "1 / 2 ^ nat (bitlen b) \<le> \<bar>v\<bar>"
    using v(1) by (simp add: y_def field_simps)
  then have lo: "pow2 (binade v) \<le> \<bar>v\<bar>" using k by (simp add: e pow2_def)
  have "(2::real) ^ nat (bitlen b - 1) \<le> real_of_int b" using bb(1) by simp
  then have "2 ^ nat (bitlen b - 1) < y" using yb(1) by linarith
  then have hi': "\<bar>v\<bar> < 1 / 2 ^ nat (bitlen b - 1)"
    using v(1) by (simp add: y_def field_simps)
  have "pow2 (binade v + 1) = 1 / 2 ^ nat (bitlen b - 1)"
  proof (cases "bitlen b = 1")
    case True then show ?thesis by (simp add: e pow2_def)
  next
    case False
    then have "- bitlen b + 1 < 0" using k by simp
    then show ?thesis by (simp add: e pow2_def)
  qed
  with lo hi' show ?thesis by simp
qed

lemma roundEven_error: "\<bar>real_of_int (roundEven v) - v\<bar> \<le> 1 / 2"
  unfolding roundEven_def Let_def by (auto simp: abs_if) linarith+

lemma fl_error: "\<bar>fl v - v\<bar> \<le> pow2 (binade v - 52) / 2"
proof (cases "v = 0")
  case True then show ?thesis using pow2_pos [of "binade 0 - 52"] by (simp add: fl_def)
next
  case False
  define q where "q = pow2 (binade v - 52)"
  have q: "0 < q" by (simp add: q_def pow2_pos)
  have "fl v - v = (real_of_int (roundEven (v / q)) - v / q) * q"
    using False q by (simp add: fl_def q_def Let_def algebra_simps)
  then have "\<bar>fl v - v\<bar> = \<bar>real_of_int (roundEven (v / q)) - v / q\<bar> * q"
    using q by (simp add: abs_mult)
  also have "\<dots> \<le> (1 / 2) * q"
    using roundEven_error [of "v / q"] q by (intro mult_right_mono) simp_all
  finally show ?thesis by (simp add: q_def)
qed

text \<open>
  The quotients and products met below, as doubles: 50/11 = 150/33 and 50/7 = 150/21
  are cell sizes of the default size 150. Eleven cells of 150/33, exactly 50 pixels,
  come out above 50 as a double, so that the whole-pixel width of the cell in column
  10 is 51 - 45 and not 50 - 45.
\<close>

lemma fl_50_11: "fl (50 / 11) = 5117726849284655 / 1125899906842624"
  by code_simp


lemma whole_pixels_of_doubles:
  "\<lceil>fl (11 * fl (50 / 11))\<rceil> = 51"
  "\<lfloor>fl (10 * fl (50 / 11))\<rfloor> = 45"
  "\<lfloor>fl (10 * fl (50 / 11)) + 1 / 2\<rfloor> = 45"
  by code_simp+

lemma whole_pixels_of_exact_products:
  "\<lceil>(11::real) * (50 / 11)\<rceil> = 50"
  "\<lfloor>(10::real) * (50 / 11)\<rfloor> = 45"
  by simp_all

section \<open>Which cells the module renderer paints\<close>

lemma paintedCells_iff:
  "(r, c) \<in> set (paintedCells n dark zones) \<longleftrightarrow>
     r < n \<and> c < n \<and> dark r c \<and> \<not> isInPositioninZone (int r) (int c) zones"
  by (auto simp: paintedCells_def split: if_splits)

lemma isInPositioninZone_positioningZones:
  "isInPositioninZone r c (positioningZones n) \<longleftrightarrow>
     (0 \<le> c \<and> c \<le> 7 \<and> 0 \<le> r \<and> r \<le> 7) \<or>
     (0 \<le> c \<and> c \<le> 7 \<and> int n - 7 \<le> r \<and> r \<le> int n) \<or>
     (int n - 7 \<le> c \<and> c \<le> int n \<and> 0 \<le> r \<and> r \<le> 7)"
  by (auto simp: isInPositioninZone_def positioningZones_def)

lemma inFinderZone_isInPositioninZone:
  "inFinderZone n r c \<Longrightarrow> isInPositioninZone r c (positioningZones n)"
  unfolding isInPositioninZone_positioningZones inFinderZone_def by auto

lemma drawModules_forEach:
  "drawModules st dark n fg cs off zones =
     (if st \<in> Some ` {''hearts'', ''stars'', ''diamonds'', ''octagons'',
                        ''pentagons'', ''triangles'', ''dots''}
      then [SetFillStyle fg] else []) @
     concat (map (\<lambda>(r, c). cellShape st dark n fg cs off r c)
                 (paintedCells n dark zones))"
  by (simp add: drawModules_def forEachModule_def cellShape_def)

lemma separatorsLight_iff:
  "separatorsLight dark n \<longleftrightarrow>
     (\<forall>r<n. \<forall>c<n. inSeparator n (int r) (int c) \<longrightarrow> \<not> dark r c)"
  by (auto simp: separatorsLight_def list_all_iff)

lemma zone_outside_finder_is_separator:
  assumes "isInPositioninZone r c (positioningZones n)" and "\<not> inFinderZone n r c"
  shows "inSeparator n r c"
  using assms
  unfolding isInPositioninZone_positioningZones inSeparator_def aroundFinderZone_def
  by auto

lemma painted_iff_dark_outside_finder:
  assumes "separatorsLight dark n"
  shows "(r, c) \<in> set (paintedCells n dark (positioningZones n)) \<longleftrightarrow>
     r < n \<and> c < n \<and> dark r c \<and> \<not> inFinderZone n (int r) (int c)"
proof
  assume "(r, c) \<in> set (paintedCells n dark (positioningZones n))"
  then show "r < n \<and> c < n \<and> dark r c \<and> \<not> inFinderZone n (int r) (int c)"
    using inFinderZone_isInPositioninZone [of n "int r" "int c"] by (auto simp: paintedCells_iff)
next
  assume a: "r < n \<and> c < n \<and> dark r c \<and> \<not> inFinderZone n (int r) (int c)"
  have "\<not> isInPositioninZone (int r) (int c) (positioningZones n)"
  proof
    assume "isInPositioninZone (int r) (int c) (positioningZones n)"
    then have "inSeparator n (int r) (int c)"
      using a by (intro zone_outside_finder_is_separator) simp_all
    then show False using assms a unfolding separatorsLight_iff by blast
  qed
  then show "(r, c) \<in> set (paintedCells n dark (positioningZones n))"
    using a by (simp add: paintedCells_iff)
qed

lemma sampleGrid_separatorsLight: "separatorsLight sampleGrid 21"
  by code_simp

text \<open>
  C1. For every grid the encoder produces (the separators light) and every style,
  the module renderer paints a shape at cell (row, col) if and only if the module
  there is dark and (row, col) lies outside the three 7 by 7 finder zones anchored
  at (0,0), (0, N-7) and (N-7, 0). For any grid at all, no cell inside a finder zone
  is painted; and what is drawn is the shape of each painted cell, in row-major order.
\<close>

theorem paints_exactly_dark_cells_outside_finder_zones:
  "(separatorsLight dark n \<longrightarrow>
      ((r, c) \<in> set (paintedCells n dark (positioningZones n)) \<longleftrightarrow>
         r < n \<and> c < n \<and> dark r c \<and> \<not> inFinderZone n (int r) (int c))) \<and>
   (inFinderZone n (int r) (int c) \<longrightarrow>
      (r, c) \<notin> set (paintedCells n dark (positioningZones n))) \<and>
   drawModules st dark n fg cs off (positioningZones n) =
     (if st \<in> Some ` {''hearts'', ''stars'', ''diamonds'', ''octagons'',
                        ''pentagons'', ''triangles'', ''dots''}
      then [SetFillStyle fg] else []) @
     concat (map (\<lambda>(r, c). cellShape st dark n fg cs off r c)
                 (paintedCells n dark (positioningZones n)))"
proof (intro conjI impI)
  assume "separatorsLight dark n"
  then show "(r, c) \<in> set (paintedCells n dark (positioningZones n)) \<longleftrightarrow>
         r < n \<and> c < n \<and> dark r c \<and> \<not> inFinderZone n (int r) (int c)"
    by (rule painted_iff_dark_outside_finder)
next
  assume "inFinderZone n (int r) (int c)"
  then have "isInPositioninZone (int r) (int c) (positioningZones n)"
    by (rule inFinderZone_isInPositioninZone)
  then show "(r, c) \<notin> set (paintedCells n dark (positioningZones n))"
    by (simp add: paintedCells_iff)
next
  show "drawModules st dark n fg cs off (positioningZones n) =
     (if st \<in> Some ` {''hearts'', ''stars'', ''diamonds'', ''octagons'',
                        ''pentagons'', ''triangles'', ''dots''}
      then [SetFillStyle fg] else []) @
     concat (map (\<lambda>(r, c). cellShape st dark n fg cs off r c)
                 (paintedCells n dark (positioningZones n)))"
    by (rule drawModules_forEach)
qed

theorem paints_exactly_dark_cells_outside_finder_zones_witness:
  "separatorsLight sampleGrid 21 \<and>
   sampleGrid 3 3 \<and> inFinderZone 21 (int 3) (int 3) \<and>
   (3, 3) \<notin> set (paintedCells 21 sampleGrid (positioningZones 21)) \<and>
   sampleGrid 0 8 \<and> (0, 8) \<in> set (paintedCells 21 sampleGrid (positioningZones 21)) \<and>
   sampleGrid 12 20 \<and> (12, 20) \<in> set (paintedCells 21 sampleGrid (positioningZones 21)) \<and>
   \<not> sampleGrid 7 0 \<and> (7, 0) \<notin> set (paintedCells 21 sampleGrid (positioningZones 21))"
  using paints_exactly_dark_cells_outside_finder_zones [of sampleGrid 21 3 3]
        paints_exactly_dark_cells_outside_finder_zones [of sampleGrid 21 0 8]
        paints_exactly_dark_cells_outside_finder_zones [of sampleGrid 21 12 20]
        paints_exactly_dark_cells_outside_finder_zones [of sampleGrid 21 7 0]
        sampleGrid_separatorsLight
  by (simp add: inFinderZone_def sampleGrid_def)

section \<open>The fluid style\<close>








section \<open>The shapes of the other styles\<close>









text \<open>
  The centre of a centred shape is its centre: the vertices of the regular polygons
  lie on the circle of the given radius around it, those of the star on that circle
  and on the circle of half the radius.
\<close>

lemma on_circle:
  fixes rad t :: real
  shows "(rad * cos t)\<^sup>2 + (rad * sin t)\<^sup>2 = rad\<^sup>2"
proof -
  have "(rad * cos t)\<^sup>2 + (rad * sin t)\<^sup>2 = rad\<^sup>2 * (cos t)\<^sup>2 + rad\<^sup>2 * (sin t)\<^sup>2"
    by (simp only: power_mult_distrib)
  also have "\<dots> = rad\<^sup>2 * ((cos t)\<^sup>2 + (sin t)\<^sup>2)"
    by (simp only: distrib_left)
  also have "\<dots> = rad\<^sup>2"
    by (simp only: sin_cos_squared_add2 mult_1_right)
  finally show ?thesis .
qed

lemma regularPolygon_on_circle:
  assumes "v \<in> set (regularPolygon k rad cx cy)"
  shows "(fst v - cx)\<^sup>2 + (snd v - cy)\<^sup>2 = rad\<^sup>2"
proof -
  from assms obtain i where "v = (cx + rad * cos (real i * (2 * pi / real k)),
      cy + rad * sin (real i * (2 * pi / real k)))"
    unfolding regularPolygon_def by auto
  then show ?thesis by (simp add: on_circle)
qed

lemma starVertices_on_circles:
  assumes "v \<in> set (starVertices rad cx cy)"
  shows "(fst v - cx)\<^sup>2 + (snd v - cy)\<^sup>2 = rad\<^sup>2 \<or>
         (fst v - cx)\<^sup>2 + (snd v - cy)\<^sup>2 = (rad / 2)\<^sup>2"
proof -
  from assms obtain i where v: "v = (cx + (if even i then rad else rad / 2) * cos (real i * (pi / 5)),
      cy - (if even i then rad else rad / 2) * sin (real i * (pi / 5)))"
    unfolding starVertices_def by auto
  show ?thesis
  proof (cases "even i")
    case True
    then show ?thesis unfolding v using on_circle [of rad "real i * (pi / 5)"] by simp
  next
    case False
    then show ?thesis unfolding v using on_circle [of "rad / 2" "real i * (pi / 5)"] by simp
  qed
qed




section \<open>The default style\<close>

lemma isolatedGrid_painted: "paintedCells 33 isolatedGrid (positioningZones 33) = [(10, 10)]"
  by code_simp

lemma isolatedGrid_separatorsLight: "separatorsLight isolatedGrid 33"
  by code_simp

text \<open>
  C8. When qrStyle is unset or is none of hearts, stars, diamonds, octagons,
  pentagons, triangles, dots and fluid, the module renderer draws, for every painted
  cell (row, col) in row-major order, a filled rectangle in the foreground colour with
  top-left corner (round(col * cellSize) + offset, round(row * cellSize) + offset),
  width ceil((col+1) * cellSize) - floor(col * cellSize) and height
  ceil((row+1) * cellSize) - floor(row * cellSize), the products being the doubles
  the code computes. On every grid the encoder produces (the separators light) the
  painted cells are the dark cells outside the three 7 by 7 finder zones.
\<close>

theorem default_style_fills_cell_rectangles:
  assumes "st \<notin> Some ` {''hearts'', ''stars'', ''diamonds'', ''octagons'', ''pentagons'',
                  ''triangles'', ''dots'', ''fluid''}"
  shows "drawModules st dark n fg cs off (positioningZones n) =
       concat (map (\<lambda>(r, c).
           [SetFillStyle fg,
            FillRect (of_int \<lfloor>fl (real c * cs) + 1 / 2\<rfloor> + off)
              (of_int \<lfloor>fl (real r * cs) + 1 / 2\<rfloor> + off)
              (of_int \<lceil>fl ((real c + 1) * cs)\<rceil> - of_int \<lfloor>fl (real c * cs)\<rfloor>)
              (of_int \<lceil>fl ((real r + 1) * cs)\<rceil> - of_int \<lfloor>fl (real r * cs)\<rfloor>)])
         (paintedCells n dark (positioningZones n))) \<and>
     (separatorsLight dark n \<longrightarrow>
        set (paintedCells n dark (positioningZones n)) =
          {(r, c). r < n \<and> c < n \<and> dark r c \<and> \<not> inFinderZone n (int r) (int c)})"
proof -
  have "drawModules st dark n fg cs off (positioningZones n) =
          forEachModule n dark (positioningZones n) (squareCell fg cs off)"
    using assms by (simp add: drawModules_def)
  moreover have "set (paintedCells n dark (positioningZones n)) =
       {(r, c). r < n \<and> c < n \<and> dark r c \<and> \<not> inFinderZone n (int r) (int c)}"
    if "separatorsLight dark n"
    using painted_iff_dark_outside_finder [OF that] by blast
  ultimately show ?thesis
    by (simp add: forEachModule_def squareCell_def Let_def Math_round_def
          Math_ceil_def Math_floor_def)
qed

theorem default_style_fills_cell_rectangles_witness:
  "None \<notin> Some ` {''hearts'', ''stars'', ''diamonds'', ''octagons'', ''pentagons'',
                  ''triangles'', ''dots'', ''fluid''} \<and>
   separatorsLight isolatedGrid 33 \<and>
   drawModules None isolatedGrid 33 ''#000000'' (fl (150 / 33)) 10 (positioningZones 33) =
     [SetFillStyle ''#000000'', FillRect 55 55 6 6]"
  using default_style_fills_cell_rectangles
          [where st = None and dark = isolatedGrid and n = 33 and fg = "''#000000''"
             and cs = "fl (150 / 33)" and off = 10]
        isolatedGrid_separatorsLight
  by (simp add: isolatedGrid_painted whole_pixels_of_doubles)

section \<open>Corner radii of the rounded square\<close>

lemma clampRadius_nonneg: "0 \<le> clampRadius s v"
  by (auto simp: clampRadius_def Let_def min_def)

lemma clampRadius_le_half: "0 \<le> s \<Longrightarrow> clampRadius s v \<le> s / 2"
  by (auto simp: clampRadius_def Let_def min_def)

lemma clampRadius_negative: "v < 0 \<Longrightarrow> clampRadius s v = 0"
  by (auto simp: clampRadius_def Let_def min_def)

lemma cornerRadius_clamped:
  "cornerRadius (map (clampRadius s) vs) k =
     (if k < length vs then clampRadius s (vs ! k) else 0)"
  by (simp add: cornerRadius_def)

lemma cornerRadius_bounds:
  "0 \<le> cornerRadius (normalizeRadii s radii) k \<and>
   (0 \<le> s \<longrightarrow> cornerRadius (normalizeRadii s radii) k \<le> s / 2)"
  unfolding normalizeRadii_def cornerRadius_clamped
  using clampRadius_nonneg clampRadius_le_half by simp

lemma effectiveRadii_Num:
  "effectiveRadii lw s (Num v) = replicate 4 (clampRadius (s - lw) v)"
  by (simp add: effectiveRadii_def normalizeRadii_def cornerRadius_def numeral_eq_Suc)

lemma effectiveRadii_NumList:
  "effectiveRadii lw s (NumList vs) =
     map (\<lambda>k. if k < length vs then clampRadius (s - lw) (vs ! k) else 0) [0, 1, 2, 3]"
  by (simp add: effectiveRadii_def normalizeRadii_def cornerRadius_clamped)

lemma effectiveRadii_bounds:
  assumes "v \<in> set (effectiveRadii lw s radii)"
  shows "0 \<le> v \<and> (lw \<le> s \<longrightarrow> v \<le> (s - lw) / 2)"
proof -
  from assms obtain k where "v = cornerRadius (normalizeRadii (s - lw) radii) k"
    unfolding effectiveRadii_def by auto
  then show ?thesis using cornerRadius_bounds [of "s - lw" radii k] by simp
qed

lemma effectiveRadii_degenerate:
  assumes "s < lw" and "v \<in> set (effectiveRadii lw s radii)"
  shows "v = 0"
proof -
  from assms(2) obtain k where "v = cornerRadius (normalizeRadii (s - lw) radii) k"
    unfolding effectiveRadii_def by auto
  moreover have "clampRadius (s - lw) u = 0" for u
    using assms(1) by (auto simp: clampRadius_def Let_def min_def)
  ultimately show ?thesis
    by (simp add: normalizeRadii_def cornerRadius_clamped)
qed

lemma drawRoundedSquare_path:
  "drawRoundedSquare lw px py s color radii fill =
     [SetLineWidth lw, SetFillStyle color, SetStrokeStyle color] @
     roundedSquarePath (px + lw / 2) (py + lw / 2) (s - lw)
       (effectiveRadii lw s radii ! 0) (effectiveRadii lw s radii ! 1)
       (effectiveRadii lw s radii ! 2) (effectiveRadii lw s radii ! 3) fill"
  by (simp add: drawRoundedSquare_def effectiveRadii_def Let_def)

text \<open>
  C4. drawRoundedSquare builds its path from four corner radii, whatever radius
  it is given (a scalar or a list): top-left, top-right, bottom-right, bottom-left.
  Each of them is at least 0, and at most half the side left after subtracting the
  line width, for every square whose side is at least its line width. A negative
  scalar gives four zero radii, and a negative entry of a list gives a zero radius
  for its corner. (For a side below the line width, every radius is 0.)
\<close>

theorem corner_radii_clamped:
  "drawRoundedSquare lw px py s color radii fill =
     [SetLineWidth lw, SetFillStyle color, SetStrokeStyle color] @
     roundedSquarePath (px + lw / 2) (py + lw / 2) (s - lw)
       (effectiveRadii lw s radii ! 0) (effectiveRadii lw s radii ! 1)
       (effectiveRadii lw s radii ! 2) (effectiveRadii lw s radii ! 3) fill \<and>
   length (effectiveRadii lw s radii) = 4 \<and>
   (\<forall>v\<in>set (effectiveRadii lw s radii).
      0 \<le> v \<and> (lw \<le> s \<longrightarrow> v \<le> (s - lw) / 2) \<and> (s < lw \<longrightarrow> v = 0)) \<and>
   (v < 0 \<longrightarrow> effectiveRadii lw s (Num v) = [0, 0, 0, 0]) \<and>
   (k < 4 \<and> k < length vs \<and> vs ! k < 0 \<longrightarrow> effectiveRadii lw s (NumList vs) ! k = 0)"
proof (intro conjI impI ballI)
  show "drawRoundedSquare lw px py s color radii fill =
     [SetLineWidth lw, SetFillStyle color, SetStrokeStyle color] @
     roundedSquarePath (px + lw / 2) (py + lw / 2) (s - lw)
       (effectiveRadii lw s radii ! 0) (effectiveRadii lw s radii ! 1)
       (effectiveRadii lw s radii ! 2) (effectiveRadii lw s radii ! 3) fill"
    by (rule drawRoundedSquare_path)
next
  show "length (effectiveRadii lw s radii) = 4" by (simp add: effectiveRadii_def)
next
  fix u assume "u \<in> set (effectiveRadii lw s radii)"
  then show "0 \<le> u" using effectiveRadii_bounds by blast
next
  fix u assume "u \<in> set (effectiveRadii lw s radii)" "lw \<le> s"
  then show "u \<le> (s - lw) / 2" using effectiveRadii_bounds by blast
next
  fix u assume "u \<in> set (effectiveRadii lw s radii)" "s < lw"
  then show "u = 0" using effectiveRadii_degenerate by blast
next
  assume "v < 0"
  then show "effectiveRadii lw s (Num v) = [0, 0, 0, 0]"
    by (simp add: effectiveRadii_Num clampRadius_negative numeral_eq_Suc)
next
  assume a: "k < 4 \<and> k < length vs \<and> vs ! k < 0"
  then have "k = 0 \<or> k = 1 \<or> k = 2 \<or> k = 3" by arith
  then show "effectiveRadii lw s (NumList vs) ! k = 0"
    using a by (auto simp: effectiveRadii_NumList clampRadius_negative)
qed

theorem corner_radii_clamped_witness:
  "effectiveRadii 8 50 (NumList [30, -4, 10, 0]) = [21, 0, 10, 0] \<and>
   (8::real) \<le> 50 \<and> (-4::real) < 0 \<and>
   effectiveRadii 8 50 (Num (-4)) = [0, 0, 0, 0] \<and>
   effectiveRadii 8 50 (NumList [30, -4, 10, 0]) ! 1 = 0 \<and>
   drawRoundedSquare 8 110 10 50 ''#000000'' (NumList [30, -4, 10, 0]) False =
     [SetLineWidth 8, SetFillStyle ''#000000'', SetStrokeStyle ''#000000'', BeginPath,
      MoveTo 135 14, LineTo 156 14, LineTo 156 46, QuadraticCurveTo 156 56 146 56,
      LineTo 114 56, LineTo 114 35, QuadraticCurveTo 114 14 135 14, ClosePath, Stroke] \<and>
   (1::real) < 2 \<and> effectiveRadii 2 1 (Num 5) = [0, 0, 0, 0]"
  using corner_radii_clamped [where lw = 8 and s = 50 and radii = "NumList [30, -4, 10, 0]"
          and v = "-4" and k = 1 and vs = "[30, -4, 10, 0]" and px = 110 and py = 10
          and color = "''#000000''" and fill = False]
        corner_radii_clamped [where lw = 2 and s = 1 and radii = "Num 5"]
  by (simp add: effectiveRadii_def normalizeRadii_def cornerRadius_def clampRadius_def
        roundedSquarePath_def)

section \<open>The eyes\<close>

lemma drawPositioningPattern_calls:
  "\<exists>co ro ci ri.
     drawPositioningPattern cs off r0 c0 (Some color) radii =
       Inr [RoundedSquare (of_int \<lceil>cs\<rceil>) (real_of_int c0 * cs + off) (real_of_int r0 * cs + off)
              (7 * cs) co ro False,
            RoundedSquare (of_int \<lceil>cs\<rceil>) (real_of_int c0 * cs + off + 2 * cs)
              (real_of_int r0 * cs + off + 2 * cs) (3 * cs) ci ri True]"
  by (simp add: drawPositioningPattern_def Let_def Math_ceil_def mult.commute
        split: prod.splits)

lemma positioningZones_nth:
  "i < 3 \<Longrightarrow> row (positioningZones n ! i) = [0, 0, int n - 7] ! i \<and>
     col (positioningZones n ! i) = [0, int n - 7, 0] ! i"
proof -
  assume "i < 3"
  then have "i = 0 \<or> i = 1 \<or> i = 2" by arith
  then show ?thesis by (auto simp: positioningZones_def)
qed

lemma drawPositioningPattern_None:
  "drawPositioningPattern cs off r0 c0 None radii = Inl TypeError"
  by (simp add: drawPositioningPattern_def Let_def split: prod.splits)

lemma eyeColorAt_None_iff:
  "eyeColorAt prop fg i = None \<longleftrightarrow> (\<exists>vs. prop = Some (PerEyeColor vs) \<and> length vs \<le> i)"
  by (auto simp: eyeColorAt_def eyeColorUnset_def split: option.splits EyeColorProp.splits)

text \<open>
  C5 (as the code has it). Given a colour, drawPositioningPattern issues exactly two
  drawRoundedSquare calls: a square of side 7 * cellSize at the zone's origin with
  fill = false, then a square of side 3 * cellSize inset by 2 * cellSize on both
  axes with fill = true, both with line width ceil(cellSize). In update this holds
  for each of the three eyes, at the origins of the zones (0,0), (0, N-7) and
  (N-7, 0), whenever a colour is resolved for the eye. No colour is resolved exactly
  when eyeColor is an array without the eye's entry: then drawPositioningPattern
  throws without issuing a call, and the loop over the eyes ends there.
\<close>

theorem eye_is_outer_ring_and_inner_square:
  "(\<exists>co ro ci ri.
     drawPositioningPattern cs off r0 c0 (Some color) radii =
       Inr [RoundedSquare (of_int \<lceil>cs\<rceil>) (real_of_int c0 * cs + off) (real_of_int r0 * cs + off)
              (7 * cs) co ro False,
            RoundedSquare (of_int \<lceil>cs\<rceil>) (real_of_int c0 * cs + off + 2 * cs)
              (real_of_int r0 * cs + off + 2 * cs) (3 * cs) ci ri True]) \<and>
   (i < 3 \<and> eyeColorAt (eyeColor p) (fgColor p) i \<noteq> None \<longrightarrow>
     (\<exists>co ro ci ri.
        eyeCalls p n cs i =
          Inr [RoundedSquare (of_int \<lceil>cs\<rceil>)
                 (real_of_int ([0, int n - 7, 0] ! i) * cs + quietZone p)
                 (real_of_int ([0, 0, int n - 7] ! i) * cs + quietZone p)
                 (7 * cs) co ro False,
               RoundedSquare (of_int \<lceil>cs\<rceil>)
                 (real_of_int ([0, int n - 7, 0] ! i) * cs + quietZone p + 2 * cs)
                 (real_of_int ([0, 0, int n - 7] ! i) * cs + quietZone p + 2 * cs)
                 (3 * cs) ci ri True])) \<and>
   (eyeColorAt (eyeColor p) (fgColor p) i = None \<longleftrightarrow>
      (\<exists>vs. eyeColor p = Some (PerEyeColor vs) \<and> length vs \<le> i)) \<and>
   drawPositioningPattern cs off r0 c0 None radii = Inl TypeError \<and>
   (eyeColorAt (eyeColor p) (fgColor p) i = None \<longrightarrow>
      eyeCalls p n cs i = Inl TypeError \<and>
      drawEyes p n cs (i # rest) = ([], Some TypeError))"
proof (intro conjI impI)
  show "\<exists>co ro ci ri.
     drawPositioningPattern cs off r0 c0 (Some color) radii =
       Inr [RoundedSquare (of_int \<lceil>cs\<rceil>) (real_of_int c0 * cs + off) (real_of_int r0 * cs + off)
              (7 * cs) co ro False,
            RoundedSquare (of_int \<lceil>cs\<rceil>) (real_of_int c0 * cs + off + 2 * cs)
              (real_of_int r0 * cs + off + 2 * cs) (3 * cs) ci ri True]"
    by (rule drawPositioningPattern_calls)
next
  assume a: "i < 3 \<and> eyeColorAt (eyeColor p) (fgColor p) i \<noteq> None"
  then obtain color where color: "eyeColorAt (eyeColor p) (fgColor p) i = Some color" by auto
  from a have z: "row (positioningZones n ! i) = [0, 0, int n - 7] ! i"
      "col (positioningZones n ! i) = [0, int n - 7, 0] ! i"
    using positioningZones_nth [of i n] by simp_all
  show "\<exists>co ro ci ri.
        eyeCalls p n cs i =
          Inr [RoundedSquare (of_int \<lceil>cs\<rceil>)
                 (real_of_int ([0, int n - 7, 0] ! i) * cs + quietZone p)
                 (real_of_int ([0, 0, int n - 7] ! i) * cs + quietZone p)
                 (7 * cs) co ro False,
               RoundedSquare (of_int \<lceil>cs\<rceil>)
                 (real_of_int ([0, int n - 7, 0] ! i) * cs + quietZone p + 2 * cs)
                 (real_of_int ([0, 0, int n - 7] ! i) * cs + quietZone p + 2 * cs)
                 (3 * cs) ci ri True]"
    unfolding eyeCalls_def Let_def color z by (rule drawPositioningPattern_calls)
next
  show "eyeColorAt (eyeColor p) (fgColor p) i = None \<longleftrightarrow>
      (\<exists>vs. eyeColor p = Some (PerEyeColor vs) \<and> length vs \<le> i)"
    by (rule eyeColorAt_None_iff)
next
  show none: "drawPositioningPattern cs off r0 c0 None radii = Inl TypeError"
    by (rule drawPositioningPattern_None)
next
  assume "eyeColorAt (eyeColor p) (fgColor p) i = None"
  then show "eyeCalls p n cs i = Inl TypeError"
    by (simp add: eyeCalls_def Let_def drawPositioningPattern_None)
next
  assume "eyeColorAt (eyeColor p) (fgColor p) i = None"
  then show "drawEyes p n cs (i # rest) = ([], Some TypeError)"
    by (simp add: eyeCalls_def Let_def drawPositioningPattern_None)
qed

theorem eye_is_outer_ring_and_inner_square_witness:
  "(1::nat) < 3 \<and> eyeColorAt (eyeColor defaultProps) (fgColor defaultProps) 1 \<noteq> None \<and>
   eyeCalls defaultProps 21 (150 / 21) 1 =
     Inr [RoundedSquare 8 110 10 50 ''#000000'' (NumList [0, 0, 0, 0]) False,
          RoundedSquare 8 (110 + 100 / 7) (10 + 100 / 7) (150 / 7) ''#000000''
            (NumList [0, 0, 0, 0]) True] \<and>
   eyeColorAt (eyeColor eyeZeroOnlyProps) (fgColor eyeZeroOnlyProps) 2 = None \<and>
   eyeCalls eyeZeroOnlyProps 21 (150 / 21) 2 = Inl TypeError"
  using eye_is_outer_ring_and_inner_square
          [where i = 1 and p = defaultProps and n = 21 and cs = "150 / 21"]
        eye_is_outer_ring_and_inner_square
          [where i = 2 and p = eyeZeroOnlyProps and n = 21 and cs = "150 / 21"]
  by (simp add: eyeCalls_def eyeColorAt_def eyeColorUnset_def defaultProps_def eyeRadii_def
        eyeZeroOnlyProps_def positioningZones_def drawPositioningPattern_def Math_ceil_def
        Let_def)

text \<open>
  C5 as stated fails: with eyeColor an array that holds an entry for index 0 only,
  the loop issues no call for the zones of eyes 1 and 2; it ends at eye 1 with the
  exception.
\<close>

theorem no_calls_for_eyes_after_missing_colour:
  "drawEyes eyeZeroOnlyProps 21 (150 / 21) [1, 2] = ([], Some TypeError)"
  by (simp add: eyeCalls_def eyeColorAt_def eyeColorUnset_def defaultProps_def eyeRadii_def
        eyeZeroOnlyProps_def drawPositioningPattern_def Let_def positioningZones_def)

lemma ringColours_eye:
  "drawPositioningPattern cs off r0 c0 (Some (Color s)) radii = Inr calls \<Longrightarrow>
     ringColours calls = Some (s, s)"
  "drawPositioningPattern cs off r0 c0 (Some (InnerOuterEyeColor inner outer)) radii = Inr calls \<Longrightarrow>
     ringColours calls = Some (outer, inner)"
  by (auto simp: drawPositioningPattern_def Let_def ringColours_def split: prod.splits)

lemma drawPositioningPattern_returns:
  "\<exists>calls. drawPositioningPattern cs off r0 c0 (Some color) radii = Inr calls"
  by (simp add: drawPositioningPattern_def Let_def split: prod.splits)

lemma eyeCalls_eq:
  "eyeCalls p n cs i =
     drawPositioningPattern cs (quietZone p) (row (positioningZones n ! i))
       (col (positioningZones n ! i)) (eyeColorAt (eyeColor p) (fgColor p) i)
       (eyeRadii (eyeRadius p) i)"
  by (simp add: eyeCalls_def Let_def)

text \<open>
  C6 (as the code has it). For each eye index i: when eyeColor as a whole is unset,
  both rings of the eye are drawn in fgColor; when the colour resolved for the eye
  (eyeColor itself, or entry i of an array) is a single string, both rings use it;
  when it is an {inner, outer} pair, the filled 3 by 3 square uses inner and the
  outer ring uses outer. An eye has no default of its own: an array entry that is
  left out is not replaced by fgColor, and drawing that eye throws.
\<close>

theorem eye_ring_colours:
  "(eyeColorUnset (eyeColor p) \<longrightarrow>
      (\<exists>calls. eyeCalls p n cs i = Inr calls \<and>
         ringColours calls = Some (fgColor p, fgColor p))) \<and>
   (eyeColorAt (eyeColor p) (fgColor p) i = Some (Color s) \<longrightarrow>
      (\<exists>calls. eyeCalls p n cs i = Inr calls \<and> ringColours calls = Some (s, s))) \<and>
   (eyeColorAt (eyeColor p) (fgColor p) i = Some (InnerOuterEyeColor inner outer) \<longrightarrow>
      (\<exists>calls. eyeCalls p n cs i = Inr calls \<and> ringColours calls = Some (outer, inner))) \<and>
   (eyeColor p = Some (OneColor v) \<and> v \<noteq> Color [] \<longrightarrow>
      eyeColorAt (eyeColor p) (fgColor p) i = Some v) \<and>
   (eyeColor p = Some (PerEyeColor vs) \<and> i < length vs \<longrightarrow>
      eyeColorAt (eyeColor p) (fgColor p) i = Some (vs ! i)) \<and>
   (eyeColor p = Some (PerEyeColor vs) \<and> length vs \<le> i \<longrightarrow>
      eyeCalls p n cs i = Inl TypeError)"
proof -
  have str: "\<exists>calls. eyeCalls p n cs i = Inr calls \<and> ringColours calls = Some (t, t)"
    if h: "eyeColorAt (eyeColor p) (fgColor p) i = Some (Color t)" for t
  proof -
    obtain calls where c: "eyeCalls p n cs i = Inr calls"
      unfolding eyeCalls_eq h using drawPositioningPattern_returns by blast
    then have "ringColours calls = Some (t, t)"
      unfolding eyeCalls_eq h by (rule ringColours_eye(1))
    with c show ?thesis by blast
  qed
  have pair: "\<exists>calls. eyeCalls p n cs i = Inr calls \<and> ringColours calls = Some (outer, inner)"
    if h: "eyeColorAt (eyeColor p) (fgColor p) i = Some (InnerOuterEyeColor inner outer)"
  proof -
    obtain calls where c: "eyeCalls p n cs i = Inr calls"
      unfolding eyeCalls_eq h using drawPositioningPattern_returns by blast
    then have "ringColours calls = Some (outer, inner)"
      unfolding eyeCalls_eq h by (rule ringColours_eye(2))
    with c show ?thesis by blast
  qed
  have unset: "eyeColorAt (eyeColor p) (fgColor p) i = Some (Color (fgColor p))"
    if "eyeColorUnset (eyeColor p)"
    using that by (simp add: eyeColorAt_def)
  have one: "eyeColorAt (eyeColor p) (fgColor p) i = Some v"
    if "eyeColor p = Some (OneColor v) \<and> v \<noteq> Color []"
    using that by (simp add: eyeColorAt_def eyeColorUnset_def)
  have per: "eyeColorAt (eyeColor p) (fgColor p) i = Some (vs ! i)"
    if "eyeColor p = Some (PerEyeColor vs) \<and> i < length vs"
    using that by (simp add: eyeColorAt_def eyeColorUnset_def)
  have missing: "eyeCalls p n cs i = Inl TypeError"
    if "eyeColor p = Some (PerEyeColor vs) \<and> length vs \<le> i"
    using that
    by (simp add: eyeCalls_def eyeColorAt_def eyeColorUnset_def drawPositioningPattern_def
          Let_def split: prod.splits)
  show ?thesis using str pair unset one per missing by blast
qed

theorem eye_ring_colours_witness:
  "eyeColorUnset (eyeColor defaultProps) \<and>
   map (\<lambda>i. map_sum id ringColours (eyeCalls defaultProps 21 (150 / 21) i)) [0, 1, 2] =
     [Inr (Some (''#000000'', ''#000000'')), Inr (Some (''#000000'', ''#000000'')),
      Inr (Some (''#000000'', ''#000000''))] \<and>
   map (\<lambda>i. map_sum id ringColours (eyeCalls eyeZeroPairProps 21 (150 / 21) i)) [0, 1, 2] =
     [Inr (Some (''#0000FF'', ''#FF0000'')), Inr (Some (''#000000'', ''#000000'')),
      Inr (Some (''#000000'', ''#000000''))] \<and>
   eyeCalls eyeZeroOnlyProps 21 (150 / 21) 2 = Inl TypeError"
  using eye_ring_colours [where p = defaultProps and i = 0 and n = 21 and cs = "150 / 21"]
        eye_ring_colours [where p = eyeZeroPairProps and i = 0 and n = 21 and cs = "150 / 21"
          and inner = "''#FF0000''" and outer = "''#0000FF''"]
        eye_ring_colours [where p = eyeZeroOnlyProps and i = 2 and n = 21 and cs = "150 / 21"
          and vs = "[InnerOuterEyeColor ''#FF0000'' ''#0000FF'']"]
  by (simp add: eyeCalls_def eyeColorAt_def eyeColorUnset_def defaultProps_def eyeRadii_def
        eyeZeroPairProps_def eyeZeroOnlyProps_def ringColours_def
        positioningZones_def drawPositioningPattern_def Math_ceil_def Let_def)

text \<open>
  C6 as stated fails: with eyeColor an array that sets {inner, outer} for index 0
  only, eye 1 is not drawn in fgColor; drawPositioningPattern throws on the missing
  colour.
\<close>

theorem eye_without_colour_is_not_drawn:
  "eyeCalls eyeZeroOnlyProps 21 (150 / 21) 1 = Inl TypeError"
  by (simp add: eyeCalls_def eyeColorAt_def eyeColorUnset_def defaultProps_def eyeRadii_def
        eyeZeroOnlyProps_def drawPositioningPattern_def Let_def positioningZones_def)

section \<open>The synchronous paint and the logo options\<close>

lemma eyeCalls_sameNonLogo:
  "sameNonLogo p q \<Longrightarrow> eyeCalls p n cs i = eyeCalls q n cs i"
  by (simp add: eyeCalls_def sameNonLogo_def)

lemma drawEyes_sameNonLogo:
  "sameNonLogo p q \<Longrightarrow> drawEyes p n cs idx = drawEyes q n cs idx"
  by (induction idx) (simp_all add: eyeCalls_sameNonLogo split: sum.splits)

text \<open>
  C7. Two runs whose configurations agree on every option that is not a logo
  option (logoImage, logoWidth, logoHeight, logoOpacity, logoPadding,
  logoPaddingStyle, removeQrCodeBehindLogo, enableCORS, logoOnLoad) produce the same
  synchronous paint: background fill, module shapes, eye patterns, and the same
  outcome. Changing the logo options of a configuration in any way leaves its
  synchronous paint as it was. The occlusion predicate isCoordinateInImage has no
  part in the loop guard: a dark cell outside the positioning zones is painted also
  where the predicate holds.
\<close>

theorem synchronous_paint_ignores_logo_options:
  "(sameNonLogo p q \<longrightarrow> syncPaint gen dpr p = syncPaint gen dpr q) \<and>
   syncPaint gen dpr (p\<lparr>logoImage := li, logoWidth := lw, logoHeight := lh, logoOpacity := lo,
      logoPadding := lp, logoPaddingStyle := ls, removeQrCodeBehindLogo := rm,
      enableCORS := co, logoOnLoad := cb\<rparr>) = syncPaint gen dpr p \<and>
   (r < n \<and> c < n \<and> dark r c \<and> \<not> isInPositioninZone (int r) (int c) zones \<and>
    isCoordinateInImage (real c) (real r) w h dx dy cs img \<longrightarrow>
      (r, c) \<in> set (paintedCells n dark zones))"
proof (intro conjI impI)
  assume same: "sameNonLogo p q"
  have eyes: "drawEyes p m k idx = drawEyes q m k idx" for m k idx
    using same by (rule drawEyes_sameNonLogo)
  show "syncPaint gen dpr p = syncPaint gen dpr q"
    using same by (simp add: syncPaint_def Let_def sameNonLogo_def eyes del: drawEyes.simps)
next
  have same: "sameNonLogo (p\<lparr>logoImage := li, logoWidth := lw, logoHeight := lh, logoOpacity := lo,
      logoPadding := lp, logoPaddingStyle := ls, removeQrCodeBehindLogo := rm,
      enableCORS := co, logoOnLoad := cb\<rparr>) p"
    by (simp add: sameNonLogo_def)
  have eyes: "drawEyes (p\<lparr>logoImage := li, logoWidth := lw, logoHeight := lh, logoOpacity := lo,
      logoPadding := lp, logoPaddingStyle := ls, removeQrCodeBehindLogo := rm,
      enableCORS := co, logoOnLoad := cb\<rparr>) m k idx = drawEyes p m k idx" for m k idx
    using same by (rule drawEyes_sameNonLogo)
  show "syncPaint gen dpr (p\<lparr>logoImage := li, logoWidth := lw, logoHeight := lh,
      logoOpacity := lo, logoPadding := lp, logoPaddingStyle := ls,
      removeQrCodeBehindLogo := rm, enableCORS := co, logoOnLoad := cb\<rparr>) = syncPaint gen dpr p"
    by (simp add: syncPaint_def Let_def eyes del: drawEyes.simps)
next
  assume "r < n \<and> c < n \<and> dark r c \<and> \<not> isInPositioninZone (int r) (int c) zones \<and>
    isCoordinateInImage (real c) (real r) w h dx dy cs img"
  then show "(r, c) \<in> set (paintedCells n dark zones)"
    by (simp add: paintedCells_iff)
qed

theorem synchronous_paint_ignores_logo_options_witness:
  "sameNonLogo defaultProps logoProps \<and>
   syncPaint sampleQR 2 defaultProps = syncPaint sampleQR 2 logoProps \<and>
   isCoordinateInImage 10 10 (dWidthLogo logoProps) (dHeightLogo logoProps) (dxLogo logoProps)
     (dyLogo logoProps) (150 / 21) (logoImage logoProps) \<and>
   (10, 10) \<in> set (paintedCells 21 allDark (positioningZones 21))"
  using synchronous_paint_ignores_logo_options
          [where p = defaultProps and q = logoProps and gen = sampleQR and dpr = 2
             and r = 10 and c = 10 and n = 21 and dark = allDark
             and zones = "positioningZones 21"
             and w = "dWidthLogo logoProps" and h = "dHeightLogo logoProps"
             and dx = "dxLogo logoProps" and dy = "dyLogo logoProps" and cs = "150 / 21"
             and img = "logoImage logoProps"]
  by (simp add: sameNonLogo_def defaultProps_def logoProps_def allDark_def
        isInPositioninZone_positioningZones isCoordinateInImage_def
        transformPixelLengthIntoNumberOfCells_def dWidthLogo_def dHeightLogo_def dxLogo_def
        dyLogo_def numberOrZero_def Let_def)

section \<open>The logo overlay\<close>

lemma drawImage_of_onload:
  "filter (\<lambda>cmd. case cmd of DrawImage a b c d e \<Rightarrow> True | _ \<Rightarrow> False) (onload p img) =
     [DrawImage img (dxLogo p + quietZone p) (dyLogo p + quietZone p)
        (dWidthLogo p) (dHeightLogo p)]"
  by (simp add: onload_def logoClearing_def Let_def)

text \<open>
  C9. When a logo image is configured and the synchronous paint completed, what
  the image's load draws holds exactly one drawImage, of the logo at
  (dxLogo + quietZone, dyLogo + quietZone) with extent dWidthLogo by dHeightLogo,
  where dxLogo = (size - dWidthLogo)/2 and dyLogo = (size - dHeightLogo)/2; dWidthLogo
  is 0.2 * size when no logoWidth is given, dHeightLogo is dWidthLogo when no
  logoHeight is given, and a given non-zero width or height is used as it is.
\<close>

theorem logo_rectangle_centred:
  "filter (\<lambda>cmd. case cmd of DrawImage a b c d e \<Rightarrow> True | _ \<Rightarrow> False) (onload p img) =
     [DrawImage img ((size' p - dWidthLogo p) / 2 + quietZone p)
        ((size' p - dHeightLogo p) / 2 + quietZone p) (dWidthLogo p) (dHeightLogo p)] \<and>
   dxLogo p = (size' p - dWidthLogo p) / 2 \<and>
   dyLogo p = (size' p - dHeightLogo p) / 2 \<and>
   (logoWidth p = None \<longrightarrow> dWidthLogo p = 0.2 * size' p) \<and>
   (logoHeight p = None \<longrightarrow> dHeightLogo p = dWidthLogo p) \<and>
   (logoWidth p = Some w \<and> w \<noteq> 0 \<longrightarrow> dWidthLogo p = w) \<and>
   (logoHeight p = Some h \<and> h \<noteq> 0 \<longrightarrow> dHeightLogo p = h) \<and>
   (logoImage p = Some src \<and> src \<noteq> [] \<and> snd (syncPaint gen dpr p) = None \<longrightarrow>
      logoOverlay gen dpr p = Some (onload p src))"
  unfolding drawImage_of_onload
  by (simp add: dxLogo_def dyLogo_def dWidthLogo_def dHeightLogo_def numberOrZero_def
        logoOverlay_def Let_def)

lemma no_error_on_default_eyes:
  "snd (syncPaint sampleQR 2 logoProps) = None"
  by (simp add: syncPaint_def Let_def sampleQR_def logoProps_def defaultProps_def
        eyeCalls_def eyeColorAt_def eyeColorUnset_def eyeRadii_def drawPositioningPattern_def
        positioningZones_def split: prod.splits)

theorem logo_rectangle_centred_witness:
  "logoWidth logoProps = Some 40 \<and> (40::real) \<noteq> 0 \<and> logoHeight logoProps = None \<and>
   logoWidth defaultProps = None \<and> dWidthLogo defaultProps = 30 \<and>
   dWidthLogo logoProps = 40 \<and> dHeightLogo logoProps = 40 \<and>
   dxLogo logoProps = 55 \<and> dyLogo logoProps = 55 \<and>
   logoImage logoProps = Some ''logo.png'' \<and>
   snd (syncPaint sampleQR 2 logoProps) = None \<and>
   logoOverlay sampleQR 2 logoProps =
     Some [Save, BeginPath, SetStrokeStyle ''#FFFFFF'', SetFillStyle ''#FFFFFF'',
           FillRect 65 65 40 40, SetGlobalAlpha 1, DrawImage ''logo.png'' 65 65 40 40,
           Restore, LogoOnLoad]"
  using logo_rectangle_centred [where p = logoProps and w = 40 and src = "''logo.png''"
          and gen = sampleQR and dpr = 2]
        logo_rectangle_centred [where p = defaultProps]
        no_error_on_default_eyes
  by (simp add: logoProps_def defaultProps_def onload_def logoClearing_def dxLogo_def
        dyLogo_def dWidthLogo_def dHeightLogo_def numberOrZero_def Let_def)

lemma syncPaint_sameNonLogo:
  assumes "sameNonLogo p q"
  shows "syncPaint gen dpr p = syncPaint gen dpr q"
proof -
  have eyes: "drawEyes p m k idx = drawEyes q m k idx" for m k idx
    using assms by (rule drawEyes_sameNonLogo)
  show ?thesis
    using assms by (simp add: syncPaint_def Let_def sameNonLogo_def eyes del: drawEyes.simps)
qed

lemma logoOverlay_cong:
  assumes "sameNonLogo p q" and "logoImage p = logoImage q"
    and "\<And>img. onload p img = onload q img"
  shows "logoOverlay gen dpr p = logoOverlay gen dpr q"
  unfolding logoOverlay_def syncPaint_sameNonLogo [OF assms(1)] assms(2) assms(3) ..

lemma onload_zero_options:
  "onload (p\<lparr>logoWidth := Some 0\<rparr>) img = onload (p\<lparr>logoWidth := None\<rparr>) img"
  "onload (p\<lparr>logoHeight := Some 0\<rparr>) img = onload (p\<lparr>logoHeight := None\<rparr>) img"
  "onload (p\<lparr>logoPadding := Some 0\<rparr>) img = onload (p\<lparr>logoPadding := None\<rparr>) img"
  by (simp_all add: onload_def logoClearing_def dxLogo_def dyLogo_def dWidthLogo_def
        dHeightLogo_def numberOrZero_def Let_def)

text \<open>
  C10. A logoWidth, logoHeight or logoPadding of 0 behaves as the omitted option:
  the synchronous paint, the decision to load the logo and everything the load
  draws are the same. In particular logoWidth = 0 gives dWidthLogo = 0.2 * size,
  logoHeight = 0 gives dHeightLogo = dWidthLogo, and with logoPadding = 0 no
  clearing region is drawn unless removeQrCodeBehindLogo is set.
\<close>

theorem zero_logo_options_are_omitted_options:
  "onload (p\<lparr>logoWidth := Some 0\<rparr>) img = onload (p\<lparr>logoWidth := None\<rparr>) img \<and>
   onload (p\<lparr>logoHeight := Some 0\<rparr>) img = onload (p\<lparr>logoHeight := None\<rparr>) img \<and>
   onload (p\<lparr>logoPadding := Some 0\<rparr>) img = onload (p\<lparr>logoPadding := None\<rparr>) img \<and>
   syncPaint gen dpr (p\<lparr>logoWidth := Some 0\<rparr>) = syncPaint gen dpr (p\<lparr>logoWidth := None\<rparr>) \<and>
   syncPaint gen dpr (p\<lparr>logoHeight := Some 0\<rparr>) = syncPaint gen dpr (p\<lparr>logoHeight := None\<rparr>) \<and>
   syncPaint gen dpr (p\<lparr>logoPadding := Some 0\<rparr>) = syncPaint gen dpr (p\<lparr>logoPadding := None\<rparr>) \<and>
   logoOverlay gen dpr (p\<lparr>logoWidth := Some 0\<rparr>) =
     logoOverlay gen dpr (p\<lparr>logoWidth := None\<rparr>) \<and>
   logoOverlay gen dpr (p\<lparr>logoHeight := Some 0\<rparr>) =
     logoOverlay gen dpr (p\<lparr>logoHeight := None\<rparr>) \<and>
   logoOverlay gen dpr (p\<lparr>logoPadding := Some 0\<rparr>) =
     logoOverlay gen dpr (p\<lparr>logoPadding := None\<rparr>) \<and>
   dWidthLogo (p\<lparr>logoWidth := Some 0\<rparr>) = 0.2 * size' p \<and>
   dHeightLogo (p\<lparr>logoHeight := Some 0\<rparr>) = dWidthLogo p \<and>
   (\<not> removeQrCodeBehindLogo p \<longrightarrow> logoClearing (p\<lparr>logoPadding := Some 0\<rparr>) = []) \<and>
   (removeQrCodeBehindLogo p \<longrightarrow> logoClearing (p\<lparr>logoPadding := Some 0\<rparr>) \<noteq> [])"
proof -
  have w: "sameNonLogo (p\<lparr>logoWidth := Some 0\<rparr>) (p\<lparr>logoWidth := None\<rparr>)"
    and h: "sameNonLogo (p\<lparr>logoHeight := Some 0\<rparr>) (p\<lparr>logoHeight := None\<rparr>)"
    and pd: "sameNonLogo (p\<lparr>logoPadding := Some 0\<rparr>) (p\<lparr>logoPadding := None\<rparr>)"
    by (simp_all add: sameNonLogo_def)
  have "logoOverlay gen dpr (p\<lparr>logoWidth := Some 0\<rparr>) =
          logoOverlay gen dpr (p\<lparr>logoWidth := None\<rparr>)"
    by (rule logoOverlay_cong [OF w]) (simp_all add: onload_zero_options)
  moreover have "logoOverlay gen dpr (p\<lparr>logoHeight := Some 0\<rparr>) =
          logoOverlay gen dpr (p\<lparr>logoHeight := None\<rparr>)"
    by (rule logoOverlay_cong [OF h]) (simp_all add: onload_zero_options)
  moreover have "logoOverlay gen dpr (p\<lparr>logoPadding := Some 0\<rparr>) =
          logoOverlay gen dpr (p\<lparr>logoPadding := None\<rparr>)"
    by (rule logoOverlay_cong [OF pd]) (simp_all add: onload_zero_options)
  moreover have "dWidthLogo (p\<lparr>logoWidth := Some 0\<rparr>) = 0.2 * size' p"
    "dHeightLogo (p\<lparr>logoHeight := Some 0\<rparr>) = dWidthLogo p"
    "\<not> removeQrCodeBehindLogo p \<longrightarrow> logoClearing (p\<lparr>logoPadding := Some 0\<rparr>) = []"
    "removeQrCodeBehindLogo p \<longrightarrow> logoClearing (p\<lparr>logoPadding := Some 0\<rparr>) \<noteq> []"
    by (simp_all add: logoClearing_def dWidthLogo_def dHeightLogo_def numberOrZero_def Let_def)
  ultimately show ?thesis
    using syncPaint_sameNonLogo [OF w] syncPaint_sameNonLogo [OF h] syncPaint_sameNonLogo [OF pd]
    by (simp only: onload_zero_options simp_thms)
qed

theorem zero_logo_options_are_omitted_options_witness:
  "\<not> removeQrCodeBehindLogo defaultProps \<and>
   logoClearing (defaultProps\<lparr>logoPadding := Some 0\<rparr>) = [] \<and>
   removeQrCodeBehindLogo logoProps \<and>
   logoClearing (logoProps\<lparr>logoPadding := Some 0\<rparr>) =
     [BeginPath, SetStrokeStyle ''#FFFFFF'', SetFillStyle ''#FFFFFF'', FillRect 65 65 40 40] \<and>
   dWidthLogo (logoProps\<lparr>logoWidth := Some 0\<rparr>) = 30 \<and>
   dHeightLogo (logoProps\<lparr>logoHeight := Some 0\<rparr>) = 40"
  using zero_logo_options_are_omitted_options [where p = defaultProps]
        zero_logo_options_are_omitted_options [where p = logoProps]
  by (simp add: logoProps_def defaultProps_def logoClearing_def dxLogo_def
        dyLogo_def dWidthLogo_def dHeightLogo_def numberOrZero_def Let_def)

end
